theory Spec2Isabelle
  imports Main "HOL-Library.Sublist" "HOL-Library.AList"
begin

section \<open>Python values the services handle opaquely\<close>

text \<open>
  Values typed \<open>Any\<close> or \<open>Dict[str, Any]\<close> in the source are only ever tested for
  truthiness and rendered with \<open>str()\<close>; an opaque value is therefore given by these two
  observations.
\<close>

datatype pyobj = PyObj (truthy: bool) (py_str: string)

text \<open>The values \<open>json.loads\<close> can return.\<close>

datatype json =
    JNull
  | JBool bool
  | JInt int
  | JFloat string
  | JStr string
  | JArr "json list"
  | JObj "(string \<times> json) list"

fun py_type_name :: "json \<Rightarrow> string" where
  "py_type_name JNull = ''NoneType''"
| "py_type_name (JBool b) = ''bool''"
| "py_type_name (JInt i) = ''int''"
| "py_type_name (JFloat f) = ''float''"
| "py_type_name (JStr s) = ''str''"
| "py_type_name (JArr xs) = ''list''"
| "py_type_name (JObj kvs) = ''dict''"

definition apostrophe :: string where
  "apostrophe = [CHR 0x27]"

definition quoted :: "string \<Rightarrow> string" where
  "quoted s = apostrophe @ s @ apostrophe"

text \<open>\<open>sep.join(parts)\<close>.\<close>

fun join :: "string \<Rightarrow> string list \<Rightarrow> string" where
  "join sep [] = []"
| "join sep [x] = x"
| "join sep (x # y # ys) = x @ sep @ join sep (y # ys)"

text \<open>\<open>str.strip()\<close> on the characters of the Latin-1 range.\<close>

definition is_space :: "char \<Rightarrow> bool" where
  "is_space c = (c \<in> {CHR 0x09, CHR 0x0A, CHR 0x0B, CHR 0x0C, CHR 0x0D,
                        CHR 0x1C, CHR 0x1D, CHR 0x1E, CHR 0x1F, CHR 0x20, CHR 0x85, CHR 0xA0})"

definition strip :: "string \<Rightarrow> string" where
  "strip s = rev (dropWhile is_space (rev (dropWhile is_space s)))"


section \<open>The kubectl tool (extensions/k8s/tools/kubectl.py)\<close>

subsection \<open>Command classes\<close>

definition SAFE_COMMANDS :: "string set" where
  "SAFE_COMMANDS = {''get'', ''describe'', ''logs'', ''top'', ''version'', ''cluster-info'',
                    ''config'', ''explain'', ''api-resources'', ''api-versions''}"

definition WRITE_COMMANDS :: "string set" where
  "WRITE_COMMANDS = {''apply'', ''create'', ''replace'', ''patch'', ''edit'', ''scale'',
                     ''autoscale'', ''expose'', ''set'', ''label'', ''annotate''}"

definition DANGEROUS_COMMANDS :: "string set" where
  "DANGEROUS_COMMANDS = {''delete'', ''rollout'', ''drain'', ''cordon'', ''uncordon'', ''taint''}"

text \<open>
  The class attributes are looked up through \<open>self\<close>; the tool carries them together
  with the two constructor arguments.
\<close>

record kubectl_tool =
  safe_commands :: "string set"
  write_commands :: "string set"
  dangerous_commands :: "string set"
  default_namespace :: string
  kubectl_context :: "string option"

definition KubectlTool :: "string \<Rightarrow> string option \<Rightarrow> kubectl_tool" where
  "KubectlTool ns ctx =
     \<lparr> safe_commands = SAFE_COMMANDS, write_commands = WRITE_COMMANDS,
       dangerous_commands = DANGEROUS_COMMANDS, default_namespace = ns, kubectl_context = ctx \<rparr>"

subsection \<open>The security check\<close>

record security_check =
  allowed :: bool
  reason :: string
  category :: string

definition check_command_security :: "kubectl_tool \<Rightarrow> string \<Rightarrow> bool \<Rightarrow> security_check" where
  "check_command_security self command confirm =
     (if command \<in> dangerous_commands self then
        \<lparr> allowed = False,
          reason = ''Command '' @ quoted command @ '' is dangerous and not allowed for safety'',
          category = ''dangerous'' \<rparr>
      else if command \<in> write_commands self \<and> \<not> confirm then
        \<lparr> allowed = False,
          reason = ''Command '' @ quoted command @
                   '' modifies cluster state and requires confirmation (set confirm=true)'',
          category = ''write_needs_confirmation'' \<rparr>
      else if command \<in> safe_commands self \<or> (command \<in> write_commands self \<and> confirm) then
        \<lparr> allowed = True,
          reason = ''Command is safe to execute'',
          category = (if command \<in> safe_commands self then ''safe'' else ''confirmed_write'') \<rparr>
      else
        \<lparr> allowed = False,
          reason = ''Unknown command '' @ quoted command @ '' - not in allowed list'',
          category = ''unknown'' \<rparr>)"

subsection \<open>Subprocesses\<close>

text \<open>
  What \<open>asyncio.create_subprocess_exec\<close> followed by \<open>communicate\<close> and the decoding of
  both streams gives for an argument vector: the process ran and exited (return code,
  standard output, standard error), the executable was not found
  (\<open>FileNotFoundError\<close>), or any other exception was raised; the exceptions carry their
  \<open>str()\<close>. The operating system and the JSON parser are parameters of the model.
\<close>

datatype proc_outcome =
    Exited int string string
  | File_not_found string
  | Proc_raises string

record os =
  run_process :: "string list \<Rightarrow> proc_outcome"
  json_loads :: "string \<Rightarrow> json option"

text \<open>
  The effect of the tool is the sequence of processes it starts, each recorded with the
  method that started it and the argument vector handed to the operating system.
\<close>

datatype spawn =
    Check_kubectl_available "string list"
  | Execute_command "string list"

record availability =
  available :: bool
  version :: "json option"
  status :: string
  av_error :: "string option"

definition check_kubectl_available :: "os \<Rightarrow> spawn list \<Rightarrow> availability \<times> spawn list" where
  "check_kubectl_available sys tr =
     (let argv = [''kubectl'', ''version'', ''--client=true'', ''--output=json''];
          tr' = tr @ [Check_kubectl_available argv]
      in case run_process sys argv of
           File_not_found e \<Rightarrow>
             (\<lparr> available = False, version = None, status = ''not_installed'',
                av_error = Some ''kubectl not found in PATH'' \<rparr>, tr')
         | Proc_raises e \<Rightarrow>
             (\<lparr> available = False, version = None, status = ''error'', av_error = Some e \<rparr>, tr')
         | Exited returncode out err \<Rightarrow>
             if returncode = 0 then
               (case json_loads sys out of
                  None \<Rightarrow>
                    (\<lparr> available = True, version = Some (JStr ''unknown''), status = ''ready'',
                       av_error = None \<rparr>, tr')
                | Some (JObj kvs) \<Rightarrow>
                    (\<lparr> available = True,
                       version = Some (case map_of kvs ''clientVersion'' of
                                         None \<Rightarrow> JObj [] | Some v \<Rightarrow> v),
                       status = ''ready'', av_error = None \<rparr>, tr')
                | Some j \<Rightarrow>
                    (\<lparr> available = False, version = None, status = ''error'',
                       av_error = Some (quoted (py_type_name j) @
                                        '' object has no attribute '' @ quoted ''get'') \<rparr>, tr'))
             else
               (\<lparr> available = False, version = None, status = ''error'', av_error = Some err \<rparr>,
                tr'))"

text \<open>The dictionary \<open>execute\<close> returns; a key that is not set is \<open>None\<close>.\<close>

record kubectl_result =
  success :: bool
  error :: string
  output_text :: string
  return_code :: "int option"
  details :: "availability option"
  security :: "security_check option"
  parsed_output :: "json option"
  command_executed :: "string option"
  namespace :: "string option"

definition failure :: "string \<Rightarrow> kubectl_result" where
  "failure msg =
     \<lparr> success = False, error = msg, output_text = '''', return_code = None, details = None,
       security = None, parsed_output = None, command_executed = None, namespace = None \<rparr>"

definition execute_command :: "os \<Rightarrow> string list \<Rightarrow> spawn list \<Rightarrow> kubectl_result \<times> spawn list" where
  "execute_command sys cmd_parts tr =
     (let tr' = tr @ [Execute_command cmd_parts]
      in case run_process sys cmd_parts of
           Exited returncode out err \<Rightarrow>
             ((failure (if err \<noteq> '''' then strip err else ''''))
                \<lparr> success := (returncode = 0), return_code := Some returncode,
                  output_text := (if out \<noteq> '''' then strip out else '''') \<rparr>, tr')
         | File_not_found e \<Rightarrow>
             ((failure (''Execution failed: '' @ e)) \<lparr> return_code := Some (- 1) \<rparr>, tr')
         | Proc_raises e \<Rightarrow>
             ((failure (''Execution failed: '' @ e)) \<lparr> return_code := Some (- 1) \<rparr>, tr'))"

definition target_namespace_of :: "kubectl_tool \<Rightarrow> string option \<Rightarrow> string" where
  "target_namespace_of self ns =
     (case ns of Some n \<Rightarrow> (if n \<noteq> '''' then n else default_namespace self)
               | None \<Rightarrow> default_namespace self)"

definition build_command ::
  "kubectl_tool \<Rightarrow> string \<Rightarrow> string list option \<Rightarrow> string option \<Rightarrow> string option \<Rightarrow> string list"
where
  "build_command self command args ns out =
     [''kubectl'']
     @ (case kubectl_context self of
          Some ctx \<Rightarrow> (if ctx \<noteq> '''' then [''--context'', ctx] else [])
        | None \<Rightarrow> [])
     @ [command]
     @ (if target_namespace_of self ns \<noteq> ''''
           \<and> command \<notin> set [''version'', ''cluster-info'', ''config'']
        then [''-n'', target_namespace_of self ns] else [])
     @ (case args of Some xs \<Rightarrow> xs | None \<Rightarrow> [])
     @ (case out of
          Some fmt \<Rightarrow> (if fmt \<noteq> '''' \<and> command \<in> safe_commands self then [''-o'', fmt] else [])
        | None \<Rightarrow> [])"

definition execute ::
  "kubectl_tool \<Rightarrow> os \<Rightarrow> string \<Rightarrow> string list option \<Rightarrow> string option \<Rightarrow> string option \<Rightarrow> bool
     \<Rightarrow> spawn list \<Rightarrow> kubectl_result \<times> spawn list"
where
  "execute self sys command args ns out confirm tr =
     (if command = '''' then (failure ''Command is required'', tr)
      else
        let (kubectl_available, tr1) = check_kubectl_available sys tr in
        if \<not> available kubectl_available then
          ((failure ''kubectl is not available'') \<lparr> details := Some kubectl_available \<rparr>, tr1)
        else
          let cmd_parts = build_command self command args ns out;
              security_check = check_command_security self command confirm
          in if \<not> allowed security_check then
               ((failure (reason security_check)) \<lparr> security := Some security_check \<rparr>, tr1)
             else
               let (result, tr2) = execute_command sys cmd_parts tr1;
                   result1 = (if out = Some ''json'' \<and> success result then
                                (case json_loads sys (output_text result) of
                                   Some j \<Rightarrow> result \<lparr> parsed_output := Some j \<rparr>
                                 | None \<Rightarrow> result)
                              else result)
               in (result1 \<lparr> command_executed := Some (join '' '' cmd_parts),
                             namespace := Some (target_namespace_of self ns) \<rparr>, tr2))"

text \<open>An operating system on which every process exits with code 0 and prints nothing.\<close>

definition quiet_os :: os where
  "quiet_os = \<lparr> run_process = (\<lambda>argv. Exited 0 '''' ''''), json_loads = (\<lambda>s. None) \<rparr>"


section \<open>Chat data (app/models/chat.py)\<close>

datatype message_role = USER | ASSISTANT | SYSTEM

record tool_call =
  tc_id :: string
  tc_name :: string
  tc_arguments :: pyobj

record tool_result =
  tr_id :: string
  tr_name :: string
  tr_result :: pyobj
  tr_success :: bool
  tr_error :: "string option"

record chat_message =
  msg_id :: string
  msg_role :: message_role
  msg_content :: string
  msg_timestamp :: int
  msg_metadata :: "pyobj option"
  msg_tool_calls :: "tool_call list option"
  msg_tool_results :: "tool_result list option"

text \<open>
  Clock, identifier source and settings. Times are microseconds since the epoch;
  \<open>uuid4 n\<close> is the \<open>n\<close>-th identifier \<open>uuid.uuid4()\<close> hands out during one call;
  \<open>strftime\<close> renders a time with the format \<open>%Y-%m-%d %H:%M\<close>.
\<close>

record world =
  now :: int
  uuid4 :: "nat \<Rightarrow> string"
  goose_session_timeout :: int
  strftime :: "int \<Rightarrow> string"


section \<open>The Goose service (app/services/goose_service.py)\<close>

text \<open>
  The items the underlying agent session streams back for one message. \<open>Other_event\<close> is
  an event of any other type, which the loop skips. \<open>Raises\<close> is an exception of class
  \<open>Exception\<close> at that point of the iteration, raised by the iterator or while the event
  is handled, with its \<open>str()\<close>. \<open>Escapes\<close> is an exception outside \<open>Exception\<close> at
  that point, such as \<open>asyncio.CancelledError\<close>: the handler of \<open>send_message\<close> is
  \<open>except Exception\<close> and does not catch it. A stream that is exhausted ends the loop.
\<close>

datatype goose_event =
    Text_delta string
  | Tool_call string pyobj
  | Tool_result string pyobj bool "string option"
  | Message_complete
  | Other_event string
  | Raises string
  | Escapes string

text \<open>
  The agent session is an external object: \<open>close_raises\<close> is \<open>None\<close> when \<open>close()\<close>
  returns and the exception's text when it raises; \<open>send_message_stream\<close> is what
  \<open>send_message(message)\<close> streams.
\<close>

record goose_session =
  close_raises :: "string option"
  send_message_stream :: "string \<Rightarrow> goose_event list"

record goose_session_data =
  sd_id :: string
  sd_goose_session :: "goose_session option"
  sd_created_at :: int
  sd_updated_at :: int
  sd_status :: string
  sd_messages :: "chat_message list"

text \<open>The \<open>sessions\<close> dictionary, in insertion order.\<close>

record goose_service =
  sessions :: "(string \<times> goose_session_data) list"

definition is_session_expired :: "world \<Rightarrow> goose_session_data \<Rightarrow> bool" where
  "is_session_expired w session =
     (now w - sd_updated_at session > goose_session_timeout w * 1000000)"

text \<open>
  \<open>close_session\<close>: when \<open>close()\<close> raises, the handler returns \<open>False\<close> and the entry
  stays in the dictionary, unchanged; otherwise the entry is deleted. The status
  \<open>closed\<close> is written to the object that is then deleted, so the service does not
  show it.
\<close>

definition close_session :: "goose_service \<Rightarrow> string \<Rightarrow> bool \<times> goose_service" where
  "close_session self session_id =
     (case map_of (sessions self) session_id of
        None \<Rightarrow> (False, self)
      | Some session \<Rightarrow>
          (case (case sd_goose_session session of None \<Rightarrow> None | Some gs \<Rightarrow> close_raises gs) of
             Some e \<Rightarrow> (False, self)
           | None \<Rightarrow> (True, self \<lparr> sessions := AList.delete session_id (sessions self) \<rparr>)))"

definition get_session ::
  "world \<Rightarrow> goose_service \<Rightarrow> string \<Rightarrow> goose_session_data option \<times> goose_service"
where
  "get_session w self session_id =
     (case map_of (sessions self) session_id of
        None \<Rightarrow> (None, self)
      | Some session \<Rightarrow>
          if is_session_expired w session then (None, snd (close_session self session_id))
          else (Some session, self))"


subsection \<open>Streaming one turn\<close>

datatype event =
    Session_start string
  | Message_delta string string string
  | Tool_call_event tool_call string
  | Tool_result_event tool_result string
  | Message_complete_event string string string
  | Error_event string "string option"

text \<open>The \<open>type\<close> key of the event dictionary.\<close>

fun event_type :: "event \<Rightarrow> string" where
  "event_type (Session_start sid) = ''session_start''"
| "event_type (Message_delta delta message_id sid) = ''message_delta''"
| "event_type (Tool_call_event tc sid) = ''tool_call''"
| "event_type (Tool_result_event tr sid) = ''tool_result''"
| "event_type (Message_complete_event content message_id sid) = ''message_complete''"
| "event_type (Error_event e sid) = ''error''"

definition is_terminal :: "event \<Rightarrow> bool" where
  "is_terminal ev = (event_type ev = ''message_complete'' \<or> event_type ev = ''error'')"

definition is_error :: "event \<Rightarrow> bool" where
  "is_error ev = (event_type ev = ''error'')"

text \<open>
  The items of the agent's stream at which the loop stops: completion, or an exception
  of either kind.
\<close>

fun stops_turn :: "goose_event \<Rightarrow> bool" where
  "stops_turn Message_complete = True"
| "stops_turn (Raises e) = True"
| "stops_turn (Escapes e) = True"
| "stops_turn x = False"

definition user_message :: "world \<Rightarrow> string \<Rightarrow> chat_message" where
  "user_message w message =
     \<lparr> msg_id = uuid4 w 0, msg_role = USER, msg_content = message, msg_timestamp = now w,
       msg_metadata = None, msg_tool_calls = None, msg_tool_results = None \<rparr>"

definition assistant_message ::
  "world \<Rightarrow> string \<Rightarrow> string \<Rightarrow> tool_call list \<Rightarrow> tool_result list \<Rightarrow> chat_message"
where
  "assistant_message w message_id response_content current_tool_calls current_tool_results =
     \<lparr> msg_id = message_id, msg_role = ASSISTANT, msg_content = response_content,
       msg_timestamp = now w, msg_metadata = None,
       msg_tool_calls = (if current_tool_calls \<noteq> [] then Some current_tool_calls else None),
       msg_tool_results = (if current_tool_results \<noteq> [] then Some current_tool_results else None) \<rparr>"

text \<open>
  The \<open>async for\<close> loop of \<open>send_message\<close> over the agent's stream, inside the \<open>try\<close>
  block with its handler, with the local variables \<open>response_content\<close>,
  \<open>current_tool_calls\<close>, \<open>current_tool_results\<close> and the number \<open>n\<close> of identifiers
  drawn so far. It returns the events yielded, the session object as the loop leaves
  it, and the exception that leaves the generator, if one does: an \<open>Exception\<close> is
  caught and answered with the error event, any other exception passes the handler and
  nothing more is yielded.
\<close>

fun stream_response ::
  "world \<Rightarrow> string \<Rightarrow> string \<Rightarrow> goose_event list \<Rightarrow> string \<Rightarrow> tool_call list \<Rightarrow> tool_result list
     \<Rightarrow> nat \<Rightarrow> goose_session_data \<Rightarrow> event list \<times> goose_session_data \<times> string option"
where
  "stream_response w session_id message_id [] rc tcs trs n session = ([], session, None)"
| "stream_response w session_id message_id (Text_delta d # es) rc tcs trs n session =
     (let (evs, session', escaped) =
            stream_response w session_id message_id es (rc @ d) tcs trs n session
      in (Message_delta d message_id session_id # evs, session', escaped))"
| "stream_response w session_id message_id (Tool_call tool_name arguments # es) rc tcs trs n session =
     (let tool_call_data = \<lparr> tc_id = uuid4 w n, tc_name = tool_name, tc_arguments = arguments \<rparr>;
          (evs, session', escaped) = stream_response w session_id message_id es rc
                                       (tcs @ [tool_call_data]) trs (Suc n) session
      in (Tool_call_event tool_call_data session_id # evs, session', escaped))"
| "stream_response w session_id message_id (Tool_result tool_name result ok err # es) rc tcs trs n session =
     (let tool_result_data = \<lparr> tr_id = uuid4 w n, tr_name = tool_name, tr_result = result,
                               tr_success = ok, tr_error = (if \<not> ok then err else None) \<rparr>;
          (evs, session', escaped) = stream_response w session_id message_id es rc tcs
                                       (trs @ [tool_result_data]) (Suc n) session
      in (Tool_result_event tool_result_data session_id # evs, session', escaped))"
| "stream_response w session_id message_id (Message_complete # es) rc tcs trs n session =
     ([Message_complete_event rc message_id session_id],
      session \<lparr> sd_messages := sd_messages session @ [assistant_message w message_id rc tcs trs],
                sd_updated_at := now w \<rparr>,
      None)"
| "stream_response w session_id message_id (Other_event t # es) rc tcs trs n session =
     stream_response w session_id message_id es rc tcs trs n session"
| "stream_response w session_id message_id (Raises e # es) rc tcs trs n session =
     ([Error_event e (Some session_id)], session, None)"
| "stream_response w session_id message_id (Escapes e # es) rc tcs trs n session =
     ([], session, Some e)"

text \<open>
  The \<open>try\<close> block of \<open>send_message\<close>, entered with the session found: the events
  it yields, the session object as the block leaves it, and the exception that leaves
  the generator, if one does.
\<close>

definition send_message_try ::
  "world \<Rightarrow> string \<Rightarrow> string \<Rightarrow> goose_session_data
     \<Rightarrow> event list \<times> goose_session_data \<times> string option"
where
  "send_message_try w session_id message session =
     (let session1 = session \<lparr> sd_messages := sd_messages session @ [user_message w message],
                               sd_updated_at := now w \<rparr>;
          (evs, session2, escaped) =
            (case sd_goose_session session1 of
               None \<Rightarrow>
                 ([Error_event (quoted ''NoneType'' @ '' object has no attribute '' @
                                quoted ''send_message'') (Some session_id)], session1, None)
             | Some gs \<Rightarrow>
                 stream_response w session_id (uuid4 w 1) (send_message_stream gs message)
                   '''' [] [] 2 session1)
      in (Session_start session_id # evs, session2, escaped))"

text \<open>
  \<open>send_message\<close> returns the events it yields, in order, the service afterwards, and
  the exception that leaves the generator, if one does. The consumer is taken to read
  the generator to its end. The session object is mutated in place, so the dictionary
  holds the changed session under the same key.
\<close>

definition send_message ::
  "world \<Rightarrow> goose_service \<Rightarrow> string \<Rightarrow> string \<Rightarrow> event list \<times> goose_service \<times> string option"
where
  "send_message w self session_id message =
     (case get_session w self session_id of
        (None, self1) \<Rightarrow>
          ([Error_event (''Session '' @ session_id @ '' not found or expired'') None], self1, None)
      | (Some session, self1) \<Rightarrow>
          let (evs, session2, escaped) = send_message_try w session_id message session
          in (evs, self1 \<lparr> sessions := AList.update session_id session2 (sessions self1) \<rparr>,
              escaped))"


section \<open>The chat service (app/services/chat_service.py)\<close>

datatype py_exception = ValidationError "string list"

record conversation =
  conv_id :: string
  conv_title :: "string option"
  conv_session_id :: string
  conv_messages :: "chat_message list"
  conv_created_at :: int
  conv_updated_at :: int
  conv_metadata :: "pyobj option"

text \<open>
  The constructor of the pydantic model \<open>Conversation\<close>, called with keyword arguments:
  an argument is \<open>None\<close> when the call does not pass it. The fields \<open>id\<close>,
  \<open>session_id\<close>, \<open>created_at\<close> and \<open>updated_at\<close> are declared without a default, so they
  are required, and a call that leaves one out raises a validation error naming the
  missing fields; \<open>title\<close>, \<open>messages\<close> and \<open>metadata\<close> have defaults.
\<close>

definition Conversation ::
  "string option \<Rightarrow> string option \<Rightarrow> string option \<Rightarrow> chat_message list option \<Rightarrow> int option
     \<Rightarrow> int option \<Rightarrow> pyobj option \<Rightarrow> py_exception + conversation"
where
  "Conversation cid title session_id messages created_at updated_at metadata =
     (case (cid, session_id, created_at, updated_at) of
        (Some i, Some s, Some c, Some u) \<Rightarrow>
          Inr \<lparr> conv_id = i, conv_title = title, conv_session_id = s,
                conv_messages = (case messages of Some ms \<Rightarrow> ms | None \<Rightarrow> []),
                conv_created_at = c, conv_updated_at = u, conv_metadata = metadata \<rparr>
      | _ \<Rightarrow>
          Inl (ValidationError
                 ((if cid = None then [''id''] else []) @
                  (if session_id = None then [''session_id''] else []) @
                  (if created_at = None then [''created_at''] else []) @
                  (if updated_at = None then [''updated_at''] else []))))"

record chat_service =
  conversations :: "(string \<times> conversation) list"

definition create_conversation ::
  "world \<Rightarrow> chat_service \<Rightarrow> string option \<Rightarrow> (py_exception + conversation) \<times> chat_service"
where
  "create_conversation w self title =
     (let conversation_id = uuid4 w 0;
          default_title = ''Chat '' @ strftime w (now w)
      in case Conversation (Some conversation_id)
                (Some (case title of Some t \<Rightarrow> (if t \<noteq> '''' then t else default_title)
                                   | None \<Rightarrow> default_title))
                None (Some []) (Some (now w)) (Some (now w)) None of
           Inl e \<Rightarrow> (Inl e, self)
         | Inr conversation \<Rightarrow>
             (Inr conversation,
              self \<lparr> conversations :=
                       AList.update conversation_id conversation (conversations self) \<rparr>))"

definition get_conversation ::
  "world \<Rightarrow> chat_service \<Rightarrow> string \<Rightarrow> (py_exception + conversation) \<times> chat_service"
where
  "get_conversation w self conversation_id =
     (case map_of (conversations self) conversation_id of
        None \<Rightarrow> create_conversation w self None
      | Some conversation \<Rightarrow> (Inr conversation, self))"

text \<open>
  \<open>add_message\<close> appends to the conversation object it was given, which the dictionary
  holds under the requested key when the key was known and under the new identifier
  when the conversation was just created.
\<close>

definition add_message ::
  "world \<Rightarrow> chat_service \<Rightarrow> string \<Rightarrow> message_role \<Rightarrow> string
     \<Rightarrow> (py_exception + chat_message) \<times> chat_service"
where
  "add_message w self conversation_id role content =
     (case get_conversation w self conversation_id of
        (Inl e, self1) \<Rightarrow> (Inl e, self1)
      | (Inr conversation, self1) \<Rightarrow>
          let known = (map_of (conversations self) conversation_id \<noteq> None);
              key = (if known then conversation_id else conv_id conversation);
              message = \<lparr> msg_id = uuid4 w (if known then 0 else 1), msg_role = role,
                          msg_content = content, msg_timestamp = now w, msg_metadata = None,
                          msg_tool_calls = None, msg_tool_results = None \<rparr>;
              conversation1 = conversation
                \<lparr> conv_messages := conv_messages conversation @ [message],
                  conv_updated_at := now w \<rparr>
          in (Inr message,
              self1 \<lparr> conversations := AList.update key conversation1 (conversations self1) \<rparr>))"


section \<open>The chat workflow (app/temporal/workflows.py)\<close>

text \<open>
  The result of the intent analysis, a dictionary of the shape the activity documents;
  the workflow reads \<open>requires_k8s\<close> and \<open>suggested_tools\<close> and passes the rest on.
\<close>

record intent_analysis =
  requires_k8s :: bool
  intent :: string
  suggested_tools :: "string list"

text \<open>A message dictionary of the workflow.\<close>

record wf_message =
  wm_id :: string
  wm_role :: string
  wm_content :: string
  wm_timestamp :: string

text \<open>
  The activities themselves: each either returns its value or fails, the failure given
  by the text of the exception \<open>execute_activity\<close> raises for it. \<open>workflow_now\<close> is
  \<open>workflow.now().isoformat()\<close>. \<open>logs_errors\<close> tells whether the workflow logger is
  enabled for the level \<open>ERROR\<close> (it is by default, and it is not while a workflow is
  replayed). \<open>type_error_text\<close> is the \<open>str()\<close> of a \<open>TypeError\<close>.
\<close>

datatype wf_exception =
    Activity_error string
  | Positional_arguments nat
  | Unexpected_keyword string

record activities =
  analyze_user_intent :: "string \<Rightarrow> wf_message list \<Rightarrow> string + intent_analysis"
  get_cluster_status :: "string + pyobj"
  execute_k8s_command :: "string \<Rightarrow> string + pyobj"
  get_claude_response :: "wf_message list \<Rightarrow> string + string"
  workflow_now :: string
  logs_errors :: bool
  type_error_text :: "wf_exception \<Rightarrow> string"

text \<open>\<open>str(e)\<close> of an exception caught in the workflow.\<close>

definition str_of :: "activities \<Rightarrow> wf_exception \<Rightarrow> string" where
  "str_of acts x = (case x of Activity_error e \<Rightarrow> e | _ \<Rightarrow> type_error_text acts x)"

text \<open>
  \<open>workflow.execute_activity(activity, arg, *, args, ...)\<close> of the temporalio library
  takes one argument of the activity positionally; several go through the keyword
  \<open>args\<close>. A call that passes more than one positionally is a \<open>TypeError\<close> of the call
  itself, raised before any activity is scheduled (\<open>Positional_arguments\<close>). The first
  parameter is the number of activity arguments the call passes positionally, the second
  what the activity does when it runs.
\<close>

definition execute_activity :: "nat \<Rightarrow> string + 'a \<Rightarrow> wf_exception + 'a" where
  "execute_activity positional outcome =
     (if positional > 1 then Inl (Positional_arguments positional)
      else case outcome of Inl e \<Rightarrow> Inl (Activity_error e) | Inr v \<Rightarrow> Inr v)"

text \<open>
  \<open>workflow.logger.error(msg, **kwargs)\<close>: the workflow logger is a
  \<open>logging.LoggerAdapter\<close>, which hands the keywords on to the standard logger. That
  accepts \<open>exc_info\<close>, \<open>stack_info\<close>, \<open>stacklevel\<close> and \<open>extra\<close>; any other keyword is a
  \<open>TypeError\<close> (\<open>Unexpected_keyword\<close>), raised when the logger is enabled for the
  level. The result is the exception the call raises, if it raises.
\<close>

definition logger_error :: "activities \<Rightarrow> string list \<Rightarrow> wf_exception option" where
  "logger_error acts keywords =
     (if logs_errors acts then
        (case filter (\<lambda>k. k \<notin> set [''exc_info'', ''stack_info'', ''stacklevel'', ''extra''])
                keywords of
           [] \<Rightarrow> None
         | k # ks \<Rightarrow> Some (Unexpected_keyword k))
      else None)"

record turn_result =
  conversation_id :: string
  intent_summary :: intent_analysis
  k8s_data :: "pyobj option"
  k8s_tool_results :: "(string \<times> pyobj) list option"
  response :: "string option"
  turn_error :: "string option"

text \<open>\<open>str(n)\<close> for a length.\<close>

fun show_nat :: "nat \<Rightarrow> string" where
  "show_nat n =
     (if n < 10 then [char_of (48 + n)] else show_nat (n div 10) @ [char_of (48 + n mod 10)])"

declare show_nat.simps [simp del]

definition newline :: string where
  "newline = [CHR 0x0A]"

definition enhance_messages_with_k8s_context ::
  "activities \<Rightarrow> wf_message list \<Rightarrow> string \<Rightarrow> pyobj option \<Rightarrow> (string \<times> pyobj) list option
     \<Rightarrow> wf_message list"
where
  "enhance_messages_with_k8s_context acts conversation_history user_text data tool_results =
     (let current = \<lparr> wm_id = ''user-'' @ show_nat (length conversation_history),
                       wm_role = ''user'', wm_content = user_text,
                       wm_timestamp = workflow_now acts \<rparr>;
          has_data = (case data of Some d \<Rightarrow> truthy d | None \<Rightarrow> False);
          has_results = (case tool_results of Some rs \<Rightarrow> rs \<noteq> [] | None \<Rightarrow> False)
      in if has_data \<or> has_results then
           let context_content =
                 ''Current Kubernetes cluster context:'' @ newline @ newline
                 @ (case data of
                      Some d \<Rightarrow> (if truthy d
                                 then ''Cluster Status: '' @ py_str d @ newline @ newline else '''')
                    | None \<Rightarrow> '''')
                 @ (case tool_results of
                      Some rs \<Rightarrow>
                        (if rs \<noteq> [] then
                           ''Tool Results:'' @ newline
                           @ concat (map (\<lambda>(tool, result).
                                            ''- '' @ tool @ '': '' @ py_str result @ newline) rs)
                           @ newline
                         else '''')
                    | None \<Rightarrow> '''')
           in conversation_history
              @ [\<lparr> wm_id = ''system-context-'' @ show_nat (length conversation_history + 1),
                   wm_role = ''system'', wm_content = context_content,
                   wm_timestamp = workflow_now acts \<rparr>,
                 current]
         else conversation_history @ [current])"

text \<open>
  The loop over the suggested tools. The activity is called with two positional
  arguments, the tool and the empty dictionary. The handler of a tool logs with the
  keyword \<open>error\<close>; when that call raises, the exception leaves the loop. The result is
  the exception that leaves the loop, if one does, and the tool results stored so far.
\<close>

fun execute_suggested_tools ::
  "activities \<Rightarrow> string list \<Rightarrow> (string \<times> pyobj) list option
     \<Rightarrow> wf_exception option \<times> (string \<times> pyobj) list option"
where
  "execute_suggested_tools acts [] results = (None, results)"
| "execute_suggested_tools acts (tool # tools) results =
     (case execute_activity 2 (execute_k8s_command acts tool) of
        Inr tool_result \<Rightarrow>
          execute_suggested_tools acts tools
            (Some (AList.update tool tool_result (case results of None \<Rightarrow> [] | Some rs \<Rightarrow> rs)))
      | Inl x \<Rightarrow>
          (case logger_error acts [''error''] of
             Some t \<Rightarrow> (Some t, results)
           | None \<Rightarrow> execute_suggested_tools acts tools results))"

definition error_response :: "string \<Rightarrow> string" where
  "error_response e = ''I encountered an error while processing your request: '' @ e"

text \<open>
  The \<open>try\<close> block of \<open>run\<close>: the cluster status is fetched with no positional
  argument, the tools and the response with two. The block ends with the response data,
  or with an exception and the response data as they are when it is raised.
\<close>

definition run_try ::
  "activities \<Rightarrow> string \<Rightarrow> wf_message list \<Rightarrow> intent_analysis \<Rightarrow> turn_result
     \<Rightarrow> wf_exception \<times> turn_result + turn_result"
where
  "run_try acts user_text conversation_history analysis response_data =
     (case (if requires_k8s analysis then
              (case execute_activity 0 (get_cluster_status acts) of
                 Inl x \<Rightarrow> Inl (x, response_data)
               | Inr cluster_status \<Rightarrow>
                   (case execute_suggested_tools acts (suggested_tools analysis) None of
                      (Some x, results) \<Rightarrow>
                        Inl (x, response_data \<lparr> k8s_data := Some cluster_status,
                                                k8s_tool_results := results \<rparr>)
                    | (None, results) \<Rightarrow>
                        Inr (response_data \<lparr> k8s_data := Some cluster_status,
                                             k8s_tool_results := results \<rparr>)))
            else Inr response_data) of
        Inl failed \<Rightarrow> Inl failed
      | Inr rd \<Rightarrow>
          (case execute_activity 2
                  (get_claude_response acts
                     (enhance_messages_with_k8s_context acts conversation_history user_text
                        (k8s_data rd) (k8s_tool_results rd))) of
             Inl x \<Rightarrow> Inl (x, rd)
           | Inr claude_response \<Rightarrow> Inr (rd \<lparr> response := Some claude_response \<rparr>)))"

text \<open>
  The steps of \<open>run\<close> after the intent analysis: the \<open>try\<close> block and its handler. The
  handler first logs with the keyword \<open>error\<close>, then fills in \<open>error\<close> and \<open>response\<close>;
  when the log call raises, that exception leaves \<open>run\<close> and nothing is returned.
\<close>

definition run_steps ::
  "activities \<Rightarrow> string \<Rightarrow> wf_message list \<Rightarrow> string \<Rightarrow> intent_analysis
     \<Rightarrow> wf_exception + turn_result"
where
  "run_steps acts user_text conversation_history cid analysis =
     (case run_try acts user_text conversation_history analysis
             \<lparr> conversation_id = cid, intent_summary = analysis, k8s_data = None,
               k8s_tool_results = None, response = None, turn_error = None \<rparr> of
        Inr rd \<Rightarrow> Inr rd
      | Inl (x, rd) \<Rightarrow>
          (case logger_error acts [''error''] of
             Some t \<Rightarrow> Inl t
           | None \<Rightarrow>
               Inr (rd \<lparr> turn_error := Some (str_of acts x),
                         response := Some (error_response (str_of acts x)) \<rparr>)))"

text \<open>
  \<open>ChatWorkflow.run\<close>. The intent analysis is called with two positional arguments,
  outside the \<open>try\<close> block, so its exception leaves the workflow (\<open>Inl\<close>).
\<close>

definition run ::
  "activities \<Rightarrow> string \<Rightarrow> wf_message list \<Rightarrow> string \<Rightarrow> wf_exception + turn_result"
where
  "run acts user_text conversation_history cid =
     (case execute_activity 2 (analyze_user_intent acts user_text conversation_history) of
        Inl x \<Rightarrow> Inl x
      | Inr analysis \<Rightarrow> run_steps acts user_text conversation_history cid analysis)"


section \<open>Concrete inputs\<close>

text \<open>
  A clock at two hours past the epoch with the default session timeout of 3600 seconds,
  a session \<open>s1\<close> with a given agent stream, \<open>close()\<close> behaviour and last update,
  activities for a turn that needs the cluster, with the error logging enabled, and the
  intent analysis these activities return.
\<close>

definition demo_world :: world where
  "demo_world = \<lparr> now = 7200000000, uuid4 = (\<lambda>n. ''uuid-'' @ show_nat n),
                   goose_session_timeout = 3600, strftime = (\<lambda>t. ''1970-01-01 02:00'') \<rparr>"

definition demo_session :: "goose_event list \<Rightarrow> string option \<Rightarrow> int \<Rightarrow> goose_session_data" where
  "demo_session stream closing updated =
     \<lparr> sd_id = ''s1'',
       sd_goose_session = Some \<lparr> close_raises = closing, send_message_stream = (\<lambda>m. stream) \<rparr>,
       sd_created_at = 0, sd_updated_at = updated, sd_status = ''active'', sd_messages = [] \<rparr>"

definition demo_service :: "goose_session_data \<Rightarrow> goose_service" where
  "demo_service session = \<lparr> sessions = [(sd_id session, session)] \<rparr>"

definition demo_activities :: "string + pyobj \<Rightarrow> string + string \<Rightarrow> activities" where
  "demo_activities cluster claude =
     \<lparr> analyze_user_intent =
         (\<lambda>text history. Inr \<lparr> requires_k8s = True, intent = ''list all pods'',
                                suggested_tools = [''get_pods'', ''get_nodes''] \<rparr>),
       get_cluster_status = cluster,
       execute_k8s_command =
         (\<lambda>tool. if tool = ''get_pods'' then Inl ''connection refused''
                  else Inr (PyObj True ''{}'')),
       get_claude_response = (\<lambda>messages. claude),
       workflow_now = ''1970-01-01T02:00:00'',
       logs_errors = True,
       type_error_text = (\<lambda>x. ''TypeError'') \<rparr>"

definition demo_analysis :: intent_analysis where
  "demo_analysis = \<lparr> requires_k8s = True, intent = ''list all pods'',
                      suggested_tools = [''get_pods'', ''get_nodes''] \<rparr>"


section \<open>Properties of the command classifier\<close>

lemma write_not_dangerous: "WRITE_COMMANDS \<inter> DANGEROUS_COMMANDS = {}"
  by (simp add: WRITE_COMMANDS_def DANGEROUS_COMMANDS_def)

lemma write_not_safe: "WRITE_COMMANDS \<inter> SAFE_COMMANDS = {}"
  by (simp add: WRITE_COMMANDS_def SAFE_COMMANDS_def)

text \<open>
  C1. A command of the dangerous set is denied with the category \<open>dangerous\<close> and the
  dangerous reason, for either value of \<open>confirm\<close>. The dangerous set is tested before
  the other two: the verdict is the same whatever the safe and the write set contain,
  the command itself included.
\<close>

theorem forbidden_always_denied:
  "command \<in> DANGEROUS_COMMANDS \<Longrightarrow>
   check_command_security
     ((KubectlTool ns ctx) \<lparr> safe_commands := sf, write_commands := wr \<rparr>) command confirm =
     \<lparr> allowed = False,
       reason = ''Command '' @ quoted command @ '' is dangerous and not allowed for safety'',
       category = ''dangerous'' \<rparr>"
  by (simp add: check_command_security_def KubectlTool_def)

theorem forbidden_always_denied_witness:
  "''delete'' \<in> DANGEROUS_COMMANDS \<and>
   check_command_security (KubectlTool ''default'' None) ''delete'' True =
     \<lparr> allowed = False,
       reason = ''Command '' @ quoted ''delete'' @ '' is dangerous and not allowed for safety'',
       category = ''dangerous'' \<rparr>"
proof -
  have h: "''delete'' \<in> DANGEROUS_COMMANDS" by (simp add: DANGEROUS_COMMANDS_def)
  have "(KubectlTool ''default'' None)
          \<lparr> safe_commands := SAFE_COMMANDS, write_commands := WRITE_COMMANDS \<rparr>
        = KubectlTool ''default'' None"
    by (simp add: KubectlTool_def)
  with forbidden_always_denied [OF h, where ns = "''default''" and ctx = None
      and sf = SAFE_COMMANDS and wr = WRITE_COMMANDS and confirm = True] h
  show ?thesis by simp
qed

text \<open>
  C2. A command of the write set is denied without confirmation, with the category
  \<open>write_needs_confirmation\<close> and a reason that contains the word \<open>confirmation\<close>, and is
  allowed with confirmation, as a confirmed write.
\<close>

theorem write_needs_confirmation:
  "command \<in> WRITE_COMMANDS \<Longrightarrow>
   check_command_security (KubectlTool ns ctx) command False =
     \<lparr> allowed = False,
       reason = ''Command '' @ quoted command @
                '' modifies cluster state and requires confirmation (set confirm=true)'',
       category = ''write_needs_confirmation'' \<rparr>
   \<and> sublist ''confirmation'' (reason (check_command_security (KubectlTool ns ctx) command False))
   \<and> check_command_security (KubectlTool ns ctx) command True =
     \<lparr> allowed = True, reason = ''Command is safe to execute'', category = ''confirmed_write'' \<rparr>"
proof -
  assume w: "command \<in> WRITE_COMMANDS"
  with write_not_dangerous have nd: "command \<notin> DANGEROUS_COMMANDS" by blast
  from w write_not_safe have nsf: "command \<notin> SAFE_COMMANDS" by blast
  have r: "check_command_security (KubectlTool ns ctx) command False =
     \<lparr> allowed = False,
       reason = ''Command '' @ quoted command @
                '' modifies cluster state and requires confirmation (set confirm=true)'',
       category = ''write_needs_confirmation'' \<rparr>"
    using w nd by (simp add: check_command_security_def KubectlTool_def)
  have "''Command '' @ quoted command @
                '' modifies cluster state and requires confirmation (set confirm=true)''
        = (''Command '' @ quoted command @ '' modifies cluster state and requires '') @
          ''confirmation'' @ '' (set confirm=true)''"
    by simp
  then have s: "sublist ''confirmation'' (''Command '' @ quoted command @
                '' modifies cluster state and requires confirmation (set confirm=true)'')"
    unfolding sublist_def by blast
  have t: "check_command_security (KubectlTool ns ctx) command True =
     \<lparr> allowed = True, reason = ''Command is safe to execute'', category = ''confirmed_write'' \<rparr>"
    using w nd nsf by (simp add: check_command_security_def KubectlTool_def)
  from r s t show ?thesis by simp
qed

theorem write_needs_confirmation_witness:
  "''scale'' \<in> WRITE_COMMANDS \<and>
   \<not> allowed (check_command_security (KubectlTool ''default'' None) ''scale'' False) \<and>
   category (check_command_security (KubectlTool ''default'' None) ''scale'' False)
     = ''write_needs_confirmation'' \<and>
   allowed (check_command_security (KubectlTool ''default'' None) ''scale'' True)"
proof -
  have h: "''scale'' \<in> WRITE_COMMANDS" by (simp add: WRITE_COMMANDS_def)
  from write_needs_confirmation [OF h, of "''default''" None] h show ?thesis by simp
qed

text \<open>
  C3. A command in none of the three sets is denied with the category \<open>unknown\<close>, for
  either value of \<open>confirm\<close>.
\<close>

theorem unknown_fails_closed:
  "command \<notin> SAFE_COMMANDS \<union> WRITE_COMMANDS \<union> DANGEROUS_COMMANDS \<Longrightarrow>
   check_command_security (KubectlTool ns ctx) command confirm =
     \<lparr> allowed = False,
       reason = ''Unknown command '' @ quoted command @ '' - not in allowed list'',
       category = ''unknown'' \<rparr>"
  by (simp add: check_command_security_def KubectlTool_def)

theorem unknown_fails_closed_witness:
  "''exec'' \<notin> SAFE_COMMANDS \<union> WRITE_COMMANDS \<union> DANGEROUS_COMMANDS \<and>
   \<not> allowed (check_command_security (KubectlTool ''default'' None) ''exec'' True) \<and>
   \<not> allowed (check_command_security (KubectlTool ''default'' None) ''exec'' False) \<and>
   category (check_command_security (KubectlTool ''default'' None) ''exec'' True) = ''unknown''"
proof -
  have h: "''exec'' \<notin> SAFE_COMMANDS \<union> WRITE_COMMANDS \<union> DANGEROUS_COMMANDS"
    by (simp add: SAFE_COMMANDS_def WRITE_COMMANDS_def DANGEROUS_COMMANDS_def)
  from unknown_fails_closed [OF h, of "''default''" None True]
       unknown_fails_closed [OF h, of "''default''" None False] h
  show ?thesis by simp
qed


section \<open>Properties of the gated execution\<close>

lemma check_kubectl_available_trace:
  "snd (check_kubectl_available sys tr) =
     tr @ [Check_kubectl_available [''kubectl'', ''version'', ''--client=true'', ''--output=json'']]"
  by (simp add: check_kubectl_available_def Let_def
           split: proc_outcome.split option.split json.split)

lemma execute_command_trace:
  "snd (execute_command sys cmd_parts tr) = tr @ [Execute_command cmd_parts]"
  by (simp add: execute_command_def Let_def split: proc_outcome.split)

lemma execute_trace:
  "snd (execute self sys command args ns out confirm tr) =
     tr @ (if command = '''' then []
           else [Check_kubectl_available [''kubectl'', ''version'', ''--client=true'', ''--output=json'']]
                @ (if available (fst (check_kubectl_available sys tr))
                      \<and> allowed (check_command_security self command confirm)
                   then [Execute_command (build_command self command args ns out)] else []))"
  using check_kubectl_available_trace [of sys tr]
        execute_command_trace [of sys "build_command self command args ns out"
                                  "snd (check_kubectl_available sys tr)"]
  by (simp add: execute_def Let_def split_beta)

lemma execute_denied_result:
  "\<not> allowed (check_command_security self command confirm) \<Longrightarrow>
   fst (execute self sys command args ns out confirm tr) =
     (if command = '''' then failure ''Command is required''
      else if \<not> available (fst (check_kubectl_available sys tr))
      then (failure ''kubectl is not available'')
             \<lparr> details := Some (fst (check_kubectl_available sys tr)) \<rparr>
      else (failure (reason (check_command_security self command confirm)))
             \<lparr> security := Some (check_command_security self command confirm) \<rparr>)"
  by (simp add: execute_def Let_def split_beta)

lemma quiet_available: "available (fst (check_kubectl_available quiet_os tr))"
  by (simp add: check_kubectl_available_def quiet_os_def)

text \<open>
  C4, as the claim states it, fails for the empty command: the security check denies
  it as unknown, but \<open>execute\<close> answers with \<open>Command is required\<close>, which is not the
  reason of the denial.
\<close>

theorem execute_denial_reason_counterexample:
  "\<not> allowed (check_command_security (KubectlTool ''default'' None) '''' False) \<and>
   error (fst (execute (KubectlTool ''default'' None) quiet_os '''' None None None False []))
     \<noteq> reason (check_command_security (KubectlTool ''default'' None) '''' False)"
  by (simp add: execute_def check_command_security_def KubectlTool_def failure_def
        SAFE_COMMANDS_def WRITE_COMMANDS_def DANGEROUS_COMMANDS_def)

text \<open>
  C4, amended. The processes \<open>execute\<close> starts are appended to the ones started before.
  Among them \<open>_execute_command\<close> starts one only if the security check allows the command,
  and then it is the command built from the arguments. When the check denies the
  command, the result has \<open>success = False\<close>; its error is the reason of the denial, and
  the verdict is attached, when the command is not empty and kubectl is available (an
  empty command and a missing kubectl are reported before the check is made).
\<close>

theorem execute_gated:
  "\<exists>new. snd (execute self sys command args ns out confirm tr) = tr @ new \<and>
     (\<forall>argv. Execute_command argv \<in> set new \<longrightarrow>
        allowed (check_command_security self command confirm) \<and>
        argv = build_command self command args ns out) \<and>
     (\<not> allowed (check_command_security self command confirm) \<longrightarrow>
        \<not> success (fst (execute self sys command args ns out confirm tr)) \<and>
        (command \<noteq> '''' \<and> available (fst (check_kubectl_available sys tr)) \<longrightarrow>
           error (fst (execute self sys command args ns out confirm tr))
             = reason (check_command_security self command confirm) \<and>
           security (fst (execute self sys command args ns out confirm tr))
             = Some (check_command_security self command confirm)))"
proof -
  let ?new = "if command = '''' then []
           else [Check_kubectl_available [''kubectl'', ''version'', ''--client=true'', ''--output=json'']]
                @ (if available (fst (check_kubectl_available sys tr))
                      \<and> allowed (check_command_security self command confirm)
                   then [Execute_command (build_command self command args ns out)] else [])"
  have a: "snd (execute self sys command args ns out confirm tr) = tr @ ?new"
    by (rule execute_trace)
  have b: "\<forall>argv. Execute_command argv \<in> set ?new \<longrightarrow>
        allowed (check_command_security self command confirm) \<and>
        argv = build_command self command args ns out"
    by (simp split: if_splits)
  have c: "\<not> allowed (check_command_security self command confirm) \<longrightarrow>
        \<not> success (fst (execute self sys command args ns out confirm tr)) \<and>
        (command \<noteq> '''' \<and> available (fst (check_kubectl_available sys tr)) \<longrightarrow>
           error (fst (execute self sys command args ns out confirm tr))
             = reason (check_command_security self command confirm) \<and>
           security (fst (execute self sys command args ns out confirm tr))
             = Some (check_command_security self command confirm))"
    by (simp add: execute_denied_result failure_def)
  from a b c show ?thesis by blast
qed

theorem execute_gated_witness:
  "\<not> allowed (check_command_security (KubectlTool ''default'' None) ''delete'' False) \<and>
   ''delete'' \<noteq> '''' \<and> available (fst (check_kubectl_available quiet_os [])) \<and>
   \<not> success (fst (execute (KubectlTool ''default'' None) quiet_os ''delete'' None None None False [])) \<and>
   error (fst (execute (KubectlTool ''default'' None) quiet_os ''delete'' None None None False []))
     = reason (check_command_security (KubectlTool ''default'' None) ''delete'' False) \<and>
   Execute_command [''kubectl'', ''get'', ''-n'', ''default'']
     \<in> set (snd (execute (KubectlTool ''default'' None) quiet_os ''get'' None None None False [])) \<and>
   allowed (check_command_security (KubectlTool ''default'' None) ''get'' False)"
proof -
  have d: "\<not> allowed (check_command_security (KubectlTool ''default'' None) ''delete'' False)"
    by (simp add: check_command_security_def KubectlTool_def DANGEROUS_COMMANDS_def)
  have g: "Execute_command [''kubectl'', ''get'', ''-n'', ''default'']
     \<in> set (snd (execute (KubectlTool ''default'' None) quiet_os ''get'' None None None False []))"
    by (simp add: execute_trace quiet_available check_command_security_def KubectlTool_def
          DANGEROUS_COMMANDS_def WRITE_COMMANDS_def SAFE_COMMANDS_def build_command_def
          target_namespace_of_def)
  from execute_gated [of "KubectlTool ''default'' None" quiet_os "''delete''" None None None False "[]"]
       execute_gated [of "KubectlTool ''default'' None" quiet_os "''get''" None None None False "[]"]
       d g quiet_available [of "[]"]
  show ?thesis by auto
qed


section \<open>Properties of session lookup\<close>



lemma get_session_live:
  "fst (get_session w self sid) = Some s \<Longrightarrow>
   snd (get_session w self sid) = self \<and> map_of (sessions self) sid = Some s"
  by (auto simp: get_session_def split: option.splits if_splits)





section \<open>Properties of a streamed turn\<close>

subsection \<open>Terminal events of the stream loop\<close>

lemma is_terminal_simps [simp]:
  "\<not> is_terminal (Session_start sid)"
  "\<not> is_terminal (Message_delta d m sid)"
  "\<not> is_terminal (Tool_call_event tc sid)"
  "\<not> is_terminal (Tool_result_event tr sid)"
  "is_terminal (Message_complete_event c m sid)"
  "is_terminal (Error_event e osid)"
  by (simp_all add: is_terminal_def)

lemma is_error_simps [simp]:
  "\<not> is_error (Session_start sid)"
  "\<not> is_error (Message_delta d m sid)"
  "\<not> is_error (Tool_call_event tc sid)"
  "\<not> is_error (Tool_result_event tr sid)"
  "\<not> is_error (Message_complete_event c m sid)"
  "is_error (Error_event e osid)"
  by (simp_all add: is_error_def)

lemma stream_response_butlast:
  "filter is_terminal (butlast (fst (stream_response w sid mid es rc tcs trs n s))) = []"
proof (induction es arbitrary: rc tcs trs n)
  case Nil
  then show ?case by simp
next
  case (Cons x es)
  then show ?case by (cases x) (simp_all add: split_beta Let_def)
qed

lemma stream_response_terminal_iff:
  "(\<exists>ev \<in> set (fst (stream_response w sid mid es rc tcs trs n s)). is_terminal ev)
     \<longleftrightarrow> (\<exists>x. List.find stops_turn es = Some x \<and> (\<forall>e. x \<noteq> Escapes e))"
proof (induction es arbitrary: rc tcs trs n)
  case Nil
  then show ?case by simp
next
  case (Cons x es)
  then show ?case by (cases x) (simp_all add: split_beta Let_def)
qed

lemma at_most_one_terminal:
  "filter P (butlast evs) = [] \<Longrightarrow> length (filter P evs) \<le> 1"
proof (cases "evs = []")
  case True
  then show ?thesis by simp
next
  case False
  assume a: "filter P (butlast evs) = []"
  from False have "evs = butlast evs @ [last evs]" by simp
  then have "filter P evs = filter P (butlast evs) @ filter P [last evs]"
    by (metis filter_append)
  with a show ?thesis by simp
qed




subsection \<open>The shape of send_message\<close>

lemma send_message_missing:
  "fst (get_session w self sid) = None \<Longrightarrow>
   send_message w self sid msg =
     ([Error_event (''Session '' @ sid @ '' not found or expired'') None],
      snd (get_session w self sid), None)"
  by (cases "get_session w self sid") (simp add: send_message_def)

lemma send_message_live:
  "fst (get_session w self sid) = Some s \<Longrightarrow>
   send_message w self sid msg =
     (fst (send_message_try w sid msg s),
      self \<lparr> sessions := AList.update sid (fst (snd (send_message_try w sid msg s)))
                            (sessions self) \<rparr>,
      snd (snd (send_message_try w sid msg s)))"
  using get_session_live [of w self sid s]
  by (cases "get_session w self sid")
     (simp add: send_message_def Let_def split_beta)


lemma send_message_try_butlast:
  "filter is_terminal (butlast (fst (send_message_try w sid msg s))) = []"
  using stream_response_butlast
  by (simp add: send_message_try_def Let_def split_beta split: option.split)

lemma send_message_try_terminal_iff:
  "(\<exists>ev \<in> set (fst (send_message_try w sid msg s)). is_terminal ev) \<longleftrightarrow>
   (case sd_goose_session s of
      None \<Rightarrow> True
    | Some gs \<Rightarrow> (\<exists>x. List.find stops_turn (send_message_stream gs msg) = Some x \<and>
                       (\<forall>e. x \<noteq> Escapes e)))"
  by (simp add: send_message_try_def Let_def split_beta stream_response_terminal_iff
           split: option.split)

lemma send_message_butlast:
  "filter is_terminal (butlast (fst (send_message w self sid msg))) = []"
proof (cases "fst (get_session w self sid)")
  case None
  then show ?thesis by (simp add: send_message_missing)
next
  case (Some s)
  then show ?thesis
    using send_message_try_butlast [of w sid msg s]
    by (simp only: send_message_live fst_conv)
qed

lemma demo_uuid: "uuid4 demo_world (Suc 0) = ''uuid-1''"
  by code_simp

lemma demo_live:
  "fst (get_session demo_world (demo_service (demo_session stream closing 7199000000)) ''s1'')
     = Some (demo_session stream closing 7199000000)"
  by (simp add: get_session_def demo_service_def demo_session_def demo_world_def
        is_session_expired_def)




text \<open>
  C6, as the claim states it, fails: when the agent's stream ends without a completion
  event, the turn yields \<open>session_start\<close> and nothing else, so no terminal event at all.
\<close>

theorem silent_stream_counterexample:
  "fst (send_message demo_world (demo_service (demo_session [] None 7199000000)) ''s1'' ''hello'')
     = [Session_start ''s1''] \<and>
   filter is_terminal
     (fst (send_message demo_world (demo_service (demo_session [] None 7199000000))
             ''s1'' ''hello'')) = []"
  unfolding send_message_live [OF demo_live]
  by (simp add: send_message_try_def demo_session_def Let_def)

text \<open>
  C6, amended. No event of a turn other than the last one is terminal, so a turn has at
  most one terminal event and nothing follows it. It has one exactly when the session is
  missing, when the session has no agent session, or when the first item of the agent's
  stream that stops the loop is a completion event or an exception of class
  \<open>Exception\<close>. A stream that ends without stopping the loop, and an exception outside
  \<open>Exception\<close>, which the handler does not catch, leave the turn without a terminal
  event.
\<close>

theorem terminal_event_last:
  "filter is_terminal (butlast (fst (send_message w self sid msg))) = [] \<and>
   length (filter is_terminal (fst (send_message w self sid msg))) \<le> 1 \<and>
   ((\<exists>ev \<in> set (fst (send_message w self sid msg)). is_terminal ev) \<longleftrightarrow>
      (case fst (get_session w self sid) of
         None \<Rightarrow> True
       | Some s \<Rightarrow>
           (case sd_goose_session s of
              None \<Rightarrow> True
            | Some gs \<Rightarrow>
                (\<exists>x. List.find stops_turn (send_message_stream gs msg) = Some x \<and>
                     (\<forall>e. x \<noteq> Escapes e)))))"
proof (intro conjI)
  show b: "filter is_terminal (butlast (fst (send_message w self sid msg))) = []"
    by (rule send_message_butlast)
  from b show "length (filter is_terminal (fst (send_message w self sid msg))) \<le> 1"
    by (rule at_most_one_terminal)
  show "(\<exists>ev \<in> set (fst (send_message w self sid msg)). is_terminal ev) \<longleftrightarrow>
      (case fst (get_session w self sid) of
         None \<Rightarrow> True
       | Some s \<Rightarrow>
           (case sd_goose_session s of
              None \<Rightarrow> True
            | Some gs \<Rightarrow>
                (\<exists>x. List.find stops_turn (send_message_stream gs msg) = Some x \<and>
                     (\<forall>e. x \<noteq> Escapes e))))"
  proof (cases "fst (get_session w self sid)")
    case None
    then show ?thesis by (simp add: send_message_missing)
  next
    case (Some s)
    then show ?thesis
      using send_message_try_terminal_iff [of w sid msg s] by (simp add: send_message_live)
  qed
qed

theorem terminal_event_last_witness:
  "fst (send_message demo_world
          (demo_service (demo_session [Text_delta ''par'', Message_complete, Raises ''late'']
                           None 7199000000)) ''s1'' ''hello'')
     = [Session_start ''s1'', Message_delta ''par'' ''uuid-1'' ''s1'',
        Message_complete_event ''par'' ''uuid-1'' ''s1''] \<and>
   length (filter is_terminal
     (fst (send_message demo_world
          (demo_service (demo_session [Text_delta ''par'', Message_complete, Raises ''late'']
                           None 7199000000)) ''s1'' ''hello''))) \<le> 1 \<and>
   (\<exists>ev \<in> set (fst (send_message demo_world
          (demo_service (demo_session [Text_delta ''par'', Message_complete, Raises ''late'']
                           None 7199000000)) ''s1'' ''hello'')). is_terminal ev) \<and>
   \<not> (\<exists>ev \<in> set (fst (send_message demo_world
          (demo_service (demo_session [Text_delta ''par'', Escapes ''cancelled'']
                           None 7199000000)) ''s1'' ''hello'')). is_terminal ev)"
proof -
  have e: "fst (send_message demo_world
          (demo_service (demo_session [Text_delta ''par'', Message_complete, Raises ''late'']
                           None 7199000000)) ''s1'' ''hello'')
     = [Session_start ''s1'', Message_delta ''par'' ''uuid-1'' ''s1'',
        Message_complete_event ''par'' ''uuid-1'' ''s1'']"
    unfolding send_message_live [OF demo_live]
    by (simp add: send_message_try_def demo_session_def Let_def demo_uuid)
  have g: "sd_goose_session (demo_session [Text_delta ''par'', Escapes ''cancelled''] None 7199000000)
             = Some \<lparr> close_raises = None,
                      send_message_stream = (\<lambda>m. [Text_delta ''par'', Escapes ''cancelled'']) \<rparr>"
    by (simp add: demo_session_def)
  from terminal_event_last
         [of demo_world
             "demo_service (demo_session [Text_delta ''par'', Message_complete, Raises ''late'']
                              None 7199000000)" "''s1''" "''hello''"]
       terminal_event_last
         [of demo_world
             "demo_service (demo_session [Text_delta ''par'', Escapes ''cancelled'']
                              None 7199000000)" "''s1''" "''hello''"]
       e g
  show ?thesis by (simp add: demo_live)
qed





section \<open>Properties of session expiry\<close>







section \<open>Properties of the chat workflow\<close>

lemma run_raises: "run acts user_text conversation_history cid = Inl (Positional_arguments 2)"
  by (simp add: run_def execute_activity_def)

lemma run_try_raises:
  "\<exists>x rd. run_try acts user_text conversation_history analysis response_data = Inl (x, rd)"
  by (auto simp: run_try_def execute_activity_def split: sum.splits prod.splits option.splits)

lemma run_steps_raises:
  "logs_errors acts \<Longrightarrow>
   run_steps acts user_text conversation_history cid analysis = Inl (Unexpected_keyword ''error'')"
  using run_try_raises
          [of acts user_text conversation_history analysis
              "\<lparr> conversation_id = cid, intent_summary = analysis, k8s_data = None,
                 k8s_tool_results = None, response = None, turn_error = None \<rparr>"]
  by (auto simp: run_steps_def logger_error_def)

text \<open>
  C8. \<open>run\<close> does not return a result. Its first call of \<open>execute_activity\<close> passes
  the two arguments of the intent analysis positionally, which is a \<open>TypeError\<close> of the
  call, outside the \<open>try\<close> block: \<open>run\<close> raises on every turn. The steps after the
  analysis would not return one either: when the cluster status fails, and when it is
  fetched and a tool is called, the handler's log call with the keyword \<open>error\<close> raises
  a \<open>TypeError\<close> before \<open>error\<close> and \<open>response\<close> are set, and that exception leaves
  \<open>run\<close>.
\<close>

theorem run_raises_type_error:
  "run (demo_activities (Inr (PyObj True ''{nodes: 3}'')) (Inr ''Here are your pods''))
     ''list pods'' [] ''c1'' = Inl (Positional_arguments 2) \<and>
   run_steps (demo_activities (Inl ''timeout'') (Inr ''Here are your pods''))
     ''list pods'' [] ''c1'' demo_analysis = Inl (Unexpected_keyword ''error'') \<and>
   run_steps (demo_activities (Inr (PyObj True ''{nodes: 3}'')) (Inr ''Here are your pods''))
     ''list pods'' [] ''c1'' demo_analysis = Inl (Unexpected_keyword ''error'')"
  by (simp add: run_raises run_steps_raises demo_activities_def)


section \<open>Conversations of the chat service\<close>

lemma create_conversation_raises:
  "create_conversation w self title = (Inl (ValidationError [''session_id'']), self)"
  by (simp add: create_conversation_def Conversation_def Let_def)

text \<open>
  C10. \<open>create_conversation\<close> builds the \<open>Conversation\<close> without the required field
  \<open>session_id\<close>, so for an identifier the service does not know \<open>get_conversation\<close>
  raises the validation error instead of returning a new conversation, \<open>add_message\<close>
  raises with it, and the service is left as it was.
\<close>

theorem get_conversation_unknown_id:
  "get_conversation demo_world \<lparr> conversations = [] \<rparr> ''abc''
     = (Inl (ValidationError [''session_id'']), \<lparr> conversations = [] \<rparr>) \<and>
   add_message demo_world \<lparr> conversations = [] \<rparr> ''abc'' USER ''hello''
     = (Inl (ValidationError [''session_id'']), \<lparr> conversations = [] \<rparr>)"
  by (simp add: get_conversation_def add_message_def create_conversation_raises)

end
